theory Spec2Isabelle
  imports Main "HOL-Library.AList"
begin

section \<open>JavaScript values, errors and asynchronous results\<close>

text \<open>
  JSON-LD documents are plain JavaScript values. An object is an association list in
  the order in which the object lists its keys: assigning an existing key keeps its
  position, assigning a new key appends it (\<open>AList.update\<close>), and \<open>delete\<close> removes
  the key (\<open>AList.delete\<close>). A new key that is an array index is the exception, see
  \<open>setProp\<close> below. Numbers are restricted to the integers.
\<close>

datatype jsval =
    JUndefined
  | JNull
  | JBool bool
  | JNum int
  | JStr string
  | JArr "jsval list"
  | JObj "(string \<times> jsval) list"

type_synonym NodeObject = "(string \<times> jsval) list"
type_synonym PlainDocument = NodeObject
type_synonym Proof = NodeObject
type_synonym JsonLdDocument = jsval
type_synonym URI = string

text \<open>Property read \<open>o[k]\<close>: a missing key reads as \<open>undefined\<close>.\<close>

definition getProp :: "NodeObject \<Rightarrow> string \<Rightarrow> jsval" where
  "getProp obj k = (case map_of obj k of None \<Rightarrow> JUndefined | Some v \<Rightarrow> v)"








fun isArray :: "jsval \<Rightarrow> bool" where
  "isArray (JArr xs) = True"
| "isArray v = False"

text \<open>
  \<open>Array.prototype.includes\<close> with a string as the searched element: an element is
  the same value as a string exactly when it is that string.
\<close>

fun Array_includes :: "jsval \<Rightarrow> string \<Rightarrow> bool" where
  "Array_includes (JArr xs) s = (JStr s \<in> set xs)"
| "Array_includes v s = False"

text \<open>
  The error codes that \<open>utils/loader.ts\<close> and the \<open>Cryptosuite\<close> class name. The enums
  themselves (\<open>error/basic.ts\<close>, \<open>error/constants.ts\<close>) are declared elsewhere; only the
  members used here are listed.
\<close>

datatype BasicErrorCode = NETWORK_CONNECTION_ERROR | DOCUMENT_NOT_FOUND_ERROR

datatype ErrorCode = NOT_IMPLEMENTED_ERROR

text \<open>
  Thrown values: \<open>BasicError(code, location, message)\<close>,
  \<open>DataIntegrityError(code, location, message)\<close> and the plain \<open>Error(message)\<close>.
\<close>

datatype error =
    BasicError BasicErrorCode string string
  | DataIntegrityError ErrorCode string string
  | Error string

text \<open>
  A call either throws synchronously, or returns a promise that is rejected or
  fulfilled. Inside an \<open>async\<close> function a synchronous throw rejects the promise that
  the function returns.
\<close>

datatype 'a outcome = Thrown error | Rejected error | Fulfilled 'a

fun async :: "'a outcome \<Rightarrow> 'a outcome" where
  "async (Thrown e) = Rejected e"
| "async (Rejected e) = Rejected e"
| "async (Fulfilled x) = Fulfilled x"

text \<open>
  The only effect outside the program is the network: the world is the list of URLs
  handed to \<open>fetch\<close> so far, oldest first.
\<close>

type_synonym world = "URI list"
type_synonym 'a io = "world \<Rightarrow> 'a outcome \<times> world"

record RemoteDocument =
  contextUrl :: "URI option"
  documentUrl :: URI
  document :: JsonLdDocument

type_synonym Loader = "URI \<Rightarrow> RemoteDocument io"

text \<open>What \<open>fetch\<close> resolves to: \<open>json()\<close> fails or yields the parsed body.\<close>

record Response =
  json :: "jsval outcome"

text \<open>
  The option and result types of the cryptosuite interface. The fields \<open>proof\<close> and
  \<open>loader\<close> carry a prime: the first is a reserved word, the second is the name of a
  parameter of the functions below.
\<close>

record CreateOptions =
  proof' :: Proof
  loader' :: "Loader option"

record VerifyOptions =
  loader' :: "Loader option"

record VerificationResult =
  verified :: bool
  verifiedDocument :: "PlainDocument option"
  warnings :: "error list"
  errors :: "error list"

text \<open>The options handed to the \<open>jsonld\<close> library's \<open>canonize\<close> and \<open>frame\<close>.\<close>

record CanonizeOptions =
  algorithm :: string
  format :: string
  documentLoader :: Loader
  skipExpansion :: bool

record FrameOptions =
  documentLoader :: Loader
  compactToRelative :: bool
  safe :: bool

section \<open>Context constants\<close>

definition CREDENTIAL_CONTEXT_V1_URL :: string where
  "CREDENTIAL_CONTEXT_V1_URL = ''https://www.w3.org/2018/credentials/v1''"

definition CREDENTIAL_CONTEXT_V2_URL :: string where
  "CREDENTIAL_CONTEXT_V2_URL = ''https://www.w3.org/ns/credentials/v2''"

definition SECURITY_CONTEXT_V1_URL :: string where
  "SECURITY_CONTEXT_V1_URL = ''https://w3id.org/security/v1''"

definition SECURITY_CONTEXT_V2_URL :: string where
  "SECURITY_CONTEXT_V2_URL = ''https://w3id.org/security/v2''"

text \<open>
  Modelled from the spec: the export \<open>SECURITY_V2\<close> of \<open>context/constants.ts\<close> that
  \<open>canonizeProof\<close> and \<open>expandController\<close> read. That file declares the security
  v2 context under the name \<open>SECURITY_CONTEXT_V2_URL\<close> and has no export called
  \<open>SECURITY_V2\<close>; the spec calls the value the fixed security context.
\<close>

definition SECURITY_V2 :: string where
  "SECURITY_V2 = SECURITY_CONTEXT_V2_URL"

section \<open>Document loaders\<close>

text \<open>
  The platform's \<open>fetch\<close> is a parameter: for a URL it throws, rejects, or resolves to
  a response. \<open>toString\<close> is the text that the template literal makes of the caught
  value.
\<close>

definition network :: "(URI \<Rightarrow> Response outcome) \<Rightarrow> (error \<Rightarrow> string) \<Rightarrow> Loader" where
  "network fetch toString url w =
     (let caught = (\<lambda>e. Rejected (BasicError NETWORK_CONNECTION_ERROR ''loader#defaultLoader''
                      (''Failed to fetch the resource from '' @ url @ '': '' @ toString e @ ''!'')))
      in (case fetch url of
            Thrown e \<Rightarrow> caught e
          | Rejected e \<Rightarrow> caught e
          | Fulfilled response \<Rightarrow>
              (case json response of
                 Thrown e \<Rightarrow> caught e
               | Rejected e \<Rightarrow> caught e
               | Fulfilled doc \<Rightarrow>
                   Fulfilled \<lparr>contextUrl = Some url, documentUrl = url, document = doc\<rparr>),
          w @ [url]))"

definition fallback :: Loader where
  "fallback url w =
     (Thrown (BasicError DOCUMENT_NOT_FOUND_ERROR ''loader#defaultLoader''
        (''No custom loader was provided and the document associated with the given URL was not found: ''
           @ url @ ''!'')), w)"

text \<open>
  The built-in table \<open>URL_CONTEXT_MAP\<close> (\<open>context/map.ts\<close>) is a JavaScript \<open>Map\<close> from
  URLs to context documents; it is a parameter here. \<open>has\<close> and \<open>get\<close> are the two
  \<open>Map\<close> methods that \<open>extend\<close> calls.
\<close>

type_synonym ContextMap = "URI \<rightharpoonup> jsval"

definition has :: "ContextMap \<Rightarrow> URI \<Rightarrow> bool" where
  "has m k = (m k \<noteq> None)"

definition get :: "ContextMap \<Rightarrow> URI \<Rightarrow> jsval" where
  "get m k = (case m k of None \<Rightarrow> JUndefined | Some v \<Rightarrow> v)"

definition extend :: "ContextMap \<Rightarrow> Loader \<Rightarrow> Loader" where
  "extend URL_CONTEXT_MAP loader =
     (\<lambda>url w.
        if has URL_CONTEXT_MAP url
        then (Fulfilled \<lparr>contextUrl = None, documentUrl = url, document = get URL_CONTEXT_MAP url\<rparr>, w)
        else loader url w)"

definition basic :: "ContextMap \<Rightarrow> Loader" where
  "basic URL_CONTEXT_MAP = extend URL_CONTEXT_MAP fallback"

section \<open>The base cryptosuite\<close>

text \<open>Both static methods of the base class throw before any promise exists.\<close>

definition createProof :: "PlainDocument \<Rightarrow> CreateOptions \<Rightarrow> Proof outcome" where
  "createProof inputDocument options =
     Thrown (DataIntegrityError NOT_IMPLEMENTED_ERROR ''Cryptosuite.createProof''
       ''The createProof method must be implemented by a subclass.'')"

definition verifyProof :: "PlainDocument \<Rightarrow> VerifyOptions \<Rightarrow> VerificationResult outcome" where
  "verifyProof securedDocument options =
     Thrown (DataIntegrityError NOT_IMPLEMENTED_ERROR ''Cryptosuite.verifyProof''
       ''The verifyProof method must be implemented by a subclass.'')"

section \<open>Canonicalization and framing\<close>

text \<open>
  The \<open>jsonld\<close> library is outside the program: its \<open>canonize\<close> and \<open>frame\<close> are
  parameters. They read their input and may call the loader they are given, so they
  run in the world; they are taken not to modify the object passed in.
\<close>

type_synonym jsonld_canonize = "NodeObject \<Rightarrow> CanonizeOptions \<Rightarrow> string io"

definition canonize :: "jsonld_canonize \<Rightarrow> NodeObject \<Rightarrow> CanonizeOptions \<Rightarrow> string io" where
  "canonize jsonld_canonize input options w =
     (case jsonld_canonize input options w of (r, w') \<Rightarrow> (async r, w'))"

definition canonizeDocument ::
  "jsonld_canonize \<Rightarrow> PlainDocument \<Rightarrow> Loader \<Rightarrow> bool \<Rightarrow> string io" where
  "canonizeDocument jsonld_canonize input loader skipExpansion' w =
     (case canonize jsonld_canonize input
             \<lparr>algorithm = ''URDNA2015'', format = ''application/n-quads'',
              CanonizeOptions.documentLoader = loader, skipExpansion = skipExpansion'\<rparr> w
      of (r, w') \<Rightarrow> (async r, w'))"

text \<open>
  \<open>canonizeProof\<close> writes to the object it is given, so it returns the object as the
  caller finds it afterwards, next to the result and the world.
\<close>

definition canonizeProof ::
  "jsonld_canonize \<Rightarrow> Proof \<Rightarrow> Loader \<Rightarrow> world \<Rightarrow> string outcome \<times> Proof \<times> world" where
  "canonizeProof jsonld_canonize proof loader w =
     (let proof1 = AList.update ''@context'' (JStr SECURITY_V2) proof;
          proof2 = AList.delete ''nonce'' proof1;
          proof3 = AList.delete ''proofValue'' proof2
      in (case canonize jsonld_canonize proof3
                 \<lparr>algorithm = ''URDNA2015'', format = ''application/n-quads'',
                  CanonizeOptions.documentLoader = loader, skipExpansion = False\<rparr> w
          of (r, w') \<Rightarrow> (async r, proof3, w')))"


definition includeContext :: "PlainDocument \<Rightarrow> string \<Rightarrow> bool" where
  "includeContext doc context =
     (let fromContext = getProp doc ''@context''
      in if JStr context = fromContext then True
         else if isArray fromContext then Array_includes fromContext context
         else False)"

section \<open>Auxiliary facts about the stripped proof object\<close>

lemma canonizeProof_object:
  "fst (snd (canonizeProof jsonld_canonize p l w)) =
     AList.delete ''proofValue'' (AList.delete ''nonce''
       (AList.update ''@context'' (JStr SECURITY_V2) p))"
  by (simp add: canonizeProof_def Let_def split: prod.splits)

lemma stripped_update_proofValue:
  "AList.delete ''proofValue'' (AList.delete ''nonce''
     (AList.update ''@context'' c (AList.update ''proofValue'' v p)))
   = AList.delete ''proofValue'' (AList.delete ''nonce'' (AList.update ''@context'' c p))"
  by (simp add: delete_update delete_update_same delete_twist[of "''proofValue''"])

lemma stripped_update_nonce:
  "AList.delete ''proofValue'' (AList.delete ''nonce''
     (AList.update ''@context'' c (AList.update ''nonce'' v p)))
   = AList.delete ''proofValue'' (AList.delete ''nonce'' (AList.update ''@context'' c p))"
  by (simp add: delete_update delete_update_same)

lemma stripped_delete_proofValue:
  "AList.delete ''proofValue'' (AList.delete ''nonce''
     (AList.update ''@context'' c (AList.delete ''proofValue'' p)))
   = AList.delete ''proofValue'' (AList.delete ''nonce'' (AList.update ''@context'' c p))"
  by (simp add: delete_update[symmetric] delete_idem delete_twist[of "''proofValue''"])

lemma stripped_lookups:
  "map_of (AList.delete ''proofValue'' (AList.delete ''nonce''
     (AList.update ''@context'' c p))) ''@context'' = Some c"
  "map_of (AList.delete ''proofValue'' (AList.delete ''nonce''
     (AList.update ''@context'' c p))) ''nonce'' = None"
  "map_of (AList.delete ''proofValue'' (AList.delete ''nonce''
     (AList.update ''@context'' c p))) ''proofValue'' = None"
  by (simp_all add: delete_conv' update_conv')

lemma stripped_fixed_iff:
  "(AList.delete ''proofValue'' (AList.delete ''nonce'' (AList.update ''@context'' c p)) = p)
   = (map_of p ''@context'' = Some c \<and> map_of p ''nonce'' = None \<and> map_of p ''proofValue'' = None)"
  (is "(?q = p) = ?R")
proof
  assume "?q = p"
  then have "map_of p = map_of ?q" by simp
  then show ?R by (simp add: stripped_lookups)
next
  assume r: ?R
  then have "AList.update ''@context'' c p = p" by (simp add: update_triv)
  moreover from r have "''nonce'' \<notin> fst ` set p" "''proofValue'' \<notin> fst ` set p"
    by (simp_all add: map_of_eq_None_iff)
  ultimately show "?q = p" by simp
qed

lemma SECURITY_V2_value: "SECURITY_V2 = ''https://w3id.org/security/v2''"
  by (simp add: SECURITY_V2_def SECURITY_CONTEXT_V2_URL_def)

section \<open>Canonicalizing a proof\<close>

text \<open>
  C1. For every proof node, loader, world and canonicalization primitive,
  \<open>canonizeProof\<close> calls the primitive on the object obtained from the proof by first
  setting \<open>@context\<close> to \<open>https://w3id.org/security/v2\<close> and then deleting \<open>nonce\<close> and
  \<open>proofValue\<close>, with the URDNA2015 / N-Quads options and the given loader; its result
  and world are those of that call. The object handed over has the security context
  under \<open>@context\<close> and neither \<open>nonce\<close> nor \<open>proofValue\<close>, and overwriting any of the
  three fields of the input with any value leaves everything \<open>canonizeProof\<close> returns
  unchanged.
\<close>

theorem canonizeProof_sets_context_strips_then_canonizes:
  "let stripped = AList.delete ''proofValue'' (AList.delete ''nonce''
                    (AList.update ''@context'' (JStr ''https://w3id.org/security/v2'') p));
       options = \<lparr>algorithm = ''URDNA2015'', format = ''application/n-quads'',
                  CanonizeOptions.documentLoader = l, skipExpansion = False\<rparr>
   in fst (canonizeProof jsonld_canonize p l w) = async (fst (jsonld_canonize stripped options w))
    \<and> snd (snd (canonizeProof jsonld_canonize p l w)) = snd (jsonld_canonize stripped options w)
    \<and> map_of stripped ''@context'' = Some (JStr ''https://w3id.org/security/v2'')
    \<and> map_of stripped ''nonce'' = None
    \<and> map_of stripped ''proofValue'' = None
    \<and> (\<forall>c. canonizeProof jsonld_canonize (AList.update ''@context'' c p) l w
             = canonizeProof jsonld_canonize p l w)
    \<and> (\<forall>n. canonizeProof jsonld_canonize (AList.update ''nonce'' n p) l w
             = canonizeProof jsonld_canonize p l w)
    \<and> (\<forall>v. canonizeProof jsonld_canonize (AList.update ''proofValue'' v p) l w
             = canonizeProof jsonld_canonize p l w)"
proof -
  let ?stripped = "AList.delete ''proofValue'' (AList.delete ''nonce''
                     (AList.update ''@context'' (JStr SECURITY_V2) p))"
  let ?options = "\<lparr>algorithm = ''URDNA2015'', format = ''application/n-quads'',
                    CanonizeOptions.documentLoader = l, skipExpansion = False\<rparr>"
  have run: "fst (canonizeProof jsonld_canonize p l w)
               = async (fst (jsonld_canonize ?stripped ?options w))"
    by (cases "jsonld_canonize ?stripped ?options w")
       (cases "fst (jsonld_canonize ?stripped ?options w)",
        simp_all add: canonizeProof_def canonize_def Let_def)
  have wld: "snd (snd (canonizeProof jsonld_canonize p l w))
               = snd (jsonld_canonize ?stripped ?options w)"
    by (simp add: canonizeProof_def canonize_def Let_def split: prod.splits)
  have c: "canonizeProof jsonld_canonize (AList.update ''@context'' c p) l w
             = canonizeProof jsonld_canonize p l w" for c
    by (simp add: canonizeProof_def Let_def)
  have n: "canonizeProof jsonld_canonize (AList.update ''nonce'' n p) l w
             = canonizeProof jsonld_canonize p l w" for n
    by (simp add: canonizeProof_def Let_def stripped_update_nonce)
  have v: "canonizeProof jsonld_canonize (AList.update ''proofValue'' v p) l w
             = canonizeProof jsonld_canonize p l w" for v
    by (simp add: canonizeProof_def Let_def stripped_update_proofValue)
  show ?thesis
    unfolding Let_def using run wld c n v by (simp add: SECURITY_V2_value stripped_lookups)
qed

text \<open>
  A primitive that lists the keys it is given, run on a proof that carries a foreign
  \<open>@context\<close>, a \<open>nonce\<close> and a \<open>proofValue\<close>.
\<close>

theorem canonizeProof_sets_context_strips_then_canonizes_witness:
  "(let keys = (\<lambda>obj (options :: CanonizeOptions) (w :: world).
                  (Fulfilled (concat (map (\<lambda>(k, v). k @ '';'') obj)), w));
        p = [(''type'', JStr ''DataIntegrityProof''),
             (''@context'', JStr ''https://example.org/other''),
             (''nonce'', JStr ''abc''),
             (''proofPurpose'', JStr ''assertionMethod''),
             (''proofValue'', JStr ''z58DAdFfa9'')]
    in canonizeProof keys p fallback []
         = (Fulfilled ''type;@context;proofPurpose;'',
            [(''type'', JStr ''DataIntegrityProof''),
             (''@context'', JStr ''https://w3id.org/security/v2''),
             (''proofPurpose'', JStr ''assertionMethod'')],
            []))"
  using
    canonizeProof_sets_context_strips_then_canonizes
      [of "[(''type'', JStr ''DataIntegrityProof''),
            (''@context'', JStr ''https://example.org/other''),
            (''nonce'', JStr ''abc''),
            (''proofPurpose'', JStr ''assertionMethod''),
            (''proofValue'', JStr ''z58DAdFfa9'')]"
          fallback
          "\<lambda>obj (options :: CanonizeOptions) (w :: world).
             (Fulfilled (concat (map (\<lambda>(k, v). k @ '';'') obj)), w)"
          "[]"]
  by (simp add: Let_def canonizeProof_def canonize_def SECURITY_V2_value)

text \<open>
  C2. For every proof node \<open>p\<close>, strings \<open>v\<close> and \<open>v'\<close>, loader and primitive:
  \<open>canonizeProof\<close> on \<open>p\<close> with \<open>proofValue\<close> set to \<open>v\<close> returns what it returns on \<open>p\<close>
  with \<open>proofValue\<close> absent, and what it returns when \<open>proofValue\<close> is \<open>v'\<close> instead.
\<close>

theorem canonizeProof_ignores_proofValue:
  "canonizeProof jsonld_canonize (AList.update ''proofValue'' (JStr v) p) l w
     = canonizeProof jsonld_canonize (AList.delete ''proofValue'' p) l w
   \<and> canonizeProof jsonld_canonize (AList.update ''proofValue'' (JStr v) p) l w
     = canonizeProof jsonld_canonize (AList.update ''proofValue'' (JStr v') p) l w"
  by (simp add: canonizeProof_def Let_def stripped_update_proofValue stripped_delete_proofValue)

text \<open>
  The same primitive on a proof with and without a \<open>proofValue\<close>.
\<close>

theorem canonizeProof_ignores_proofValue_witness:
  "(let echo = (\<lambda>obj (options :: CanonizeOptions) (w :: world).
                  (Fulfilled (concat (map (\<lambda>(k, v). k @ '';'') obj)), w));
        p = [(''type'', JStr ''DataIntegrityProof''), (''proofPurpose'', JStr ''assertionMethod'')]
    in canonizeProof echo (AList.update ''proofValue'' (JStr ''z58DAdFfa9'') p) fallback []
         = canonizeProof echo p fallback []
     \<and> fst (canonizeProof echo p fallback []) = Fulfilled ''type;proofPurpose;@context;'')"
  using
    canonizeProof_ignores_proofValue
      [of "\<lambda>obj (options :: CanonizeOptions) (w :: world).
             (Fulfilled (concat (map (\<lambda>(k, v). k @ '';'') obj)), w)"
          "''z58DAdFfa9''"
          "[(''type'', JStr ''DataIntegrityProof''), (''proofPurpose'', JStr ''assertionMethod'')]"
          fallback "[]" "''z58DAdFfa9''"]
  by (simp add: Let_def canonizeProof_def canonize_def)

text \<open>
  C9. \<open>canonizeProof\<close> leaves the caller's proof object changed, whatever the
  primitive answers: afterwards the object is the input with \<open>@context\<close> overwritten by
  the security context and \<open>nonce\<close> and \<open>proofValue\<close> deleted. Nothing is restored: the
  object is as before exactly when it already had that \<open>@context\<close> and neither field.
\<close>

theorem canonizeProof_mutates_argument:
  "let p' = fst (snd (canonizeProof jsonld_canonize p l w))
   in p' = AList.delete ''proofValue'' (AList.delete ''nonce''
             (AList.update ''@context'' (JStr SECURITY_V2) p))
    \<and> getProp p' ''@context'' = JStr SECURITY_V2
    \<and> map_of p' ''nonce'' = None
    \<and> map_of p' ''proofValue'' = None
    \<and> (p' = p) = (map_of p ''@context'' = Some (JStr SECURITY_V2)
                   \<and> map_of p ''nonce'' = None \<and> map_of p ''proofValue'' = None)"
  unfolding Let_def canonizeProof_object
  by (simp add: stripped_lookups stripped_fixed_iff getProp_def)

text \<open>
  A primitive that fails: the proof object is changed all the same.
\<close>

theorem canonizeProof_mutates_argument_witness:
  "(let failing = (\<lambda>obj (options :: CanonizeOptions) (w :: world).
                     (Rejected (Error ''loading remote context failed''), w));
        p = [(''type'', JStr ''DataIntegrityProof''),
             (''nonce'', JStr ''abc''),
             (''proofValue'', JStr ''z58DAdFfa9'')]
    in fst (canonizeProof failing p fallback []) = Rejected (Error ''loading remote context failed'')
     \<and> fst (snd (canonizeProof failing p fallback []))
         = [(''type'', JStr ''DataIntegrityProof''), (''@context'', JStr SECURITY_V2)]
     \<and> fst (snd (canonizeProof failing p fallback [])) \<noteq> p)"
  using
    canonizeProof_mutates_argument
      [of "\<lambda>obj (options :: CanonizeOptions) (w :: world).
             (Rejected (Error ''loading remote context failed''), w)"
          "[(''type'', JStr ''DataIntegrityProof''),
            (''nonce'', JStr ''abc''),
            (''proofValue'', JStr ''z58DAdFfa9'')]"
          fallback "[]"]
  by (simp add: Let_def canonizeProof_def canonize_def)

section \<open>Declared contexts\<close>

text \<open>
  C6. \<open>includeContext d c\<close> is true if and only if the \<open>@context\<close> of \<open>d\<close> is the string
  \<open>c\<close> itself or an array that has the string \<open>c\<close> among its members.
\<close>

theorem includeContext_iff:
  "includeContext d c =
     (map_of d ''@context'' = Some (JStr c)
      \<or> (\<exists>xs. map_of d ''@context'' = Some (JArr xs) \<and> JStr c \<in> set xs))"
proof (cases "map_of d ''@context''")
  case None
  then show ?thesis by (simp add: includeContext_def getProp_def)
next
  case (Some v)
  then show ?thesis
    by (cases v) (auto simp: includeContext_def getProp_def)
qed

text \<open>
  A sole context, a member of an array, an array without it, a nested array, and a
  document without \<open>@context\<close>.
\<close>

theorem includeContext_iff_witness:
  "includeContext [(''@context'', JStr ''https://w3id.org/security/v2'')] ''https://w3id.org/security/v2''
   \<and> includeContext [(''@context'', JArr [JStr ''https://www.w3.org/ns/credentials/v2'',
                                         JStr ''https://w3id.org/security/v2''])]
         ''https://w3id.org/security/v2''
   \<and> \<not> includeContext [(''@context'', JArr [JStr ''https://www.w3.org/ns/credentials/v2''])]
         ''https://w3id.org/security/v2''
   \<and> \<not> includeContext [(''@context'', JArr [JArr [JStr ''https://w3id.org/security/v2'']])]
         ''https://w3id.org/security/v2''
   \<and> \<not> includeContext [(''id'', JStr ''urn:uuid:1'')] ''https://w3id.org/security/v2''"
  using
    includeContext_iff [of "[(''@context'', JStr ''https://w3id.org/security/v2'')]"
      "''https://w3id.org/security/v2''"]
    includeContext_iff [of "[(''@context'', JArr [JStr ''https://www.w3.org/ns/credentials/v2'',
                                         JStr ''https://w3id.org/security/v2''])]"
      "''https://w3id.org/security/v2''"]
    includeContext_iff [of "[(''@context'', JArr [JStr ''https://www.w3.org/ns/credentials/v2''])]"
      "''https://w3id.org/security/v2''"]
    includeContext_iff [of "[(''@context'', JArr [JArr [JStr ''https://w3id.org/security/v2'']])]"
      "''https://w3id.org/security/v2''"]
    includeContext_iff [of "[(''id'', JStr ''urn:uuid:1'')]" "''https://w3id.org/security/v2''"]
  by simp

section \<open>Loaders\<close>

text \<open>
  C4. For every URL and world, \<open>fallback\<close> throws the \<open>BasicError\<close> with code
  \<open>DOCUMENT_NOT_FOUND_ERROR\<close>; it never yields a document.
\<close>

theorem fallback_always_DocumentNotFound:
  "fallback u w =
     (Thrown (BasicError DOCUMENT_NOT_FOUND_ERROR ''loader#defaultLoader''
        (''No custom loader was provided and the document associated with the given URL was not found: ''
           @ u @ ''!'')), w)
   \<and> (\<forall>d. fst (fallback u w) \<noteq> Fulfilled d)"
  by (simp add: fallback_def)

text \<open>
  C5. For every URL: when \<open>fetch\<close> resolves and the body parses, \<open>network\<close> is fulfilled
  with the remote document holding the parsed body; when \<open>fetch\<close> or the parsing throws
  or rejects, \<open>network\<close> is rejected with the \<open>BasicError\<close> with code
  \<open>NETWORK_CONNECTION_ERROR\<close>. No other result is possible.
\<close>

theorem network_document_or_NetworkConnectionError:
  "(fetch u = Fulfilled response \<and> json response = Fulfilled d \<longrightarrow>
      network fetch toString u w
        = (Fulfilled \<lparr>contextUrl = Some u, documentUrl = u, document = d\<rparr>, w @ [u]))
   \<and> (fetch u = Thrown e \<or> fetch u = Rejected e
        \<or> (fetch u = Fulfilled response
            \<and> (json response = Thrown e \<or> json response = Rejected e)) \<longrightarrow>
      network fetch toString u w
        = (Rejected (BasicError NETWORK_CONNECTION_ERROR ''loader#defaultLoader''
             (''Failed to fetch the resource from '' @ u @ '': '' @ toString e @ ''!'')), w @ [u]))
   \<and> ((\<exists>d'. fst (network fetch toString u w)
               = Fulfilled \<lparr>contextUrl = Some u, documentUrl = u, document = d'\<rparr>)
       \<or> (\<exists>m. fst (network fetch toString u w)
               = Rejected (BasicError NETWORK_CONNECTION_ERROR ''loader#defaultLoader'' m)))"
proof (intro conjI impI)
  assume "fetch u = Fulfilled response \<and> json response = Fulfilled d"
  then show "network fetch toString u w
        = (Fulfilled \<lparr>contextUrl = Some u, documentUrl = u, document = d\<rparr>, w @ [u])"
    by (simp add: network_def Let_def)
next
  assume "fetch u = Thrown e \<or> fetch u = Rejected e
        \<or> (fetch u = Fulfilled response
            \<and> (json response = Thrown e \<or> json response = Rejected e))"
  then show "network fetch toString u w
        = (Rejected (BasicError NETWORK_CONNECTION_ERROR ''loader#defaultLoader''
             (''Failed to fetch the resource from '' @ u @ '': '' @ toString e @ ''!'')), w @ [u])"
    by (auto simp: network_def Let_def)
next
  show "(\<exists>d'. fst (network fetch toString u w)
               = Fulfilled \<lparr>contextUrl = Some u, documentUrl = u, document = d'\<rparr>)
       \<or> (\<exists>m. fst (network fetch toString u w)
               = Rejected (BasicError NETWORK_CONNECTION_ERROR ''loader#defaultLoader'' m))"
    by (simp add: network_def Let_def split: outcome.splits)
qed

text \<open>
  A server that answers with JSON, one that answers with an unparsable body, and an
  unreachable one.
\<close>

theorem network_document_or_NetworkConnectionError_witness:
  "(let up = (\<lambda>url. Fulfilled \<lparr>json = Fulfilled (JObj [(''@context'', JObj [])])\<rparr>);
        garbled = (\<lambda>url. Fulfilled \<lparr>json = Rejected (Error ''Unexpected token'')\<rparr>);
        down = (\<lambda>url. Rejected (Error ''offline''));
        toString = (\<lambda>e. case e of Error m \<Rightarrow> ''Error: '' @ m | _ \<Rightarrow> ''[object]'')
    in network up toString ''https://example.org/ctx'' []
         = (Fulfilled \<lparr>contextUrl = Some ''https://example.org/ctx'',
                        documentUrl = ''https://example.org/ctx'',
                        document = JObj [(''@context'', JObj [])]\<rparr>, [''https://example.org/ctx''])
     \<and> network garbled toString ''https://example.org/ctx'' []
         = (Rejected (BasicError NETWORK_CONNECTION_ERROR ''loader#defaultLoader''
              ''Failed to fetch the resource from https://example.org/ctx: Error: Unexpected token!''),
            [''https://example.org/ctx''])
     \<and> network down toString ''https://example.org/ctx'' []
         = (Rejected (BasicError NETWORK_CONNECTION_ERROR ''loader#defaultLoader''
              ''Failed to fetch the resource from https://example.org/ctx: Error: offline!''),
            [''https://example.org/ctx'']))"
  using
    network_document_or_NetworkConnectionError
      [of "\<lambda>url. Fulfilled \<lparr>json = Fulfilled (JObj [(''@context'', JObj [])])\<rparr>"
          "''https://example.org/ctx''"
          "\<lparr>json = Fulfilled (JObj [(''@context'', JObj [])])\<rparr>"
          "JObj [(''@context'', JObj [])]"
          "\<lambda>e. case e of Error m \<Rightarrow> ''Error: '' @ m | _ \<Rightarrow> ''[object]''"
          "[]" "Error ''none''"]
    network_document_or_NetworkConnectionError
      [of "\<lambda>url. Fulfilled \<lparr>json = Rejected (Error ''Unexpected token'')\<rparr>"
          "''https://example.org/ctx''"
          "\<lparr>json = Rejected (Error ''Unexpected token'')\<rparr>"
          "JNull"
          "\<lambda>e. case e of Error m \<Rightarrow> ''Error: '' @ m | _ \<Rightarrow> ''[object]''"
          "[]" "Error ''Unexpected token''"]
    network_document_or_NetworkConnectionError
      [of "\<lambda>url. Rejected (Error ''offline'')"
          "''https://example.org/ctx''"
          "\<lparr>json = Fulfilled JNull\<rparr>"
          "JNull"
          "\<lambda>e. case e of Error m \<Rightarrow> ''Error: '' @ m | _ \<Rightarrow> ''[object]''"
          "[]" "Error ''offline''"]
  by (simp add: Let_def)

text \<open>
  C3. For every table, loader \<open>f\<close>, URL \<open>u\<close> and world: when \<open>u\<close> is a key of the table,
  \<open>extend f\<close> is fulfilled with the table's document and \<open>documentUrl = u\<close>, the world
  is untouched and the answer is the same for every other loader in place of \<open>f\<close>;
  when \<open>u\<close> is not a key, \<open>extend f\<close> at \<open>u\<close> is \<open>f\<close> at \<open>u\<close>.
\<close>

theorem extend_table_first_else_loader:
  "(tbl u = Some d \<longrightarrow>
      extend tbl f u w = (Fulfilled \<lparr>contextUrl = None, documentUrl = u, document = d\<rparr>, w)
      \<and> (\<forall>g. extend tbl g u w = extend tbl f u w))
   \<and> (tbl u = None \<longrightarrow> extend tbl f u w = f u w)"
  by (simp add: extend_def has_def get_def)

text \<open>
  A one-entry table in front of the network loader of an unreachable host: the entry
  is served with no fetch, any other URL goes to the network loader, which fetches.
\<close>

theorem extend_table_first_else_loader_witness:
  "(let tbl = [''https://w3id.org/security/v2'' \<mapsto> JObj [(''@context'', JObj [])]];
        f = network (\<lambda>url. Rejected (Error ''offline'')) (\<lambda>e. ''Error'')
    in tbl ''https://w3id.org/security/v2'' = Some (JObj [(''@context'', JObj [])])
     \<and> extend tbl f ''https://w3id.org/security/v2'' []
         = (Fulfilled \<lparr>contextUrl = None, documentUrl = ''https://w3id.org/security/v2'',
                        document = JObj [(''@context'', JObj [])]\<rparr>, [])
     \<and> tbl ''https://example.org/ctx'' = None
     \<and> extend tbl f ''https://example.org/ctx'' [] = f ''https://example.org/ctx'' []
     \<and> snd (f ''https://example.org/ctx'' []) = [''https://example.org/ctx''])"
  using
    extend_table_first_else_loader
      [of "[''https://w3id.org/security/v2'' \<mapsto> JObj [(''@context'', JObj [])]]"
          "''https://w3id.org/security/v2''" "JObj [(''@context'', JObj [])]"
          "network (\<lambda>url. Rejected (Error ''offline'')) (\<lambda>e. ''Error'')" "[]"]
    extend_table_first_else_loader
      [of "[''https://w3id.org/security/v2'' \<mapsto> JObj [(''@context'', JObj [])]]"
          "''https://example.org/ctx''" "JNull"
          "network (\<lambda>url. Rejected (Error ''offline'')) (\<lambda>e. ''Error'')" "[]"]
  by (simp add: Let_def network_def)

text \<open>
  C10. \<open>basic\<close> is \<open>extend fallback\<close>: for a key of the table it is fulfilled with the
  table's document, for any other URL it throws the \<open>BasicError\<close> with code
  \<open>DOCUMENT_NOT_FOUND_ERROR\<close>, and in both cases no URL is fetched.
\<close>

theorem basic_is_extend_fallback:
  "basic tbl = extend tbl fallback
   \<and> (tbl u = Some d \<longrightarrow>
        basic tbl u w = (Fulfilled \<lparr>contextUrl = None, documentUrl = u, document = d\<rparr>, w))
   \<and> (tbl u = None \<longrightarrow>
        basic tbl u w =
          (Thrown (BasicError DOCUMENT_NOT_FOUND_ERROR ''loader#defaultLoader''
             (''No custom loader was provided and the document associated with the given URL was not found: ''
                @ u @ ''!'')), w))
   \<and> snd (basic tbl u w) = w"
  by (simp add: basic_def extend_def fallback_def has_def get_def)

theorem basic_is_extend_fallback_witness:
  "(let tbl = [''https://w3id.org/security/v2'' \<mapsto> JObj [(''@context'', JObj [])]]
    in basic tbl ''https://w3id.org/security/v2'' []
         = (Fulfilled \<lparr>contextUrl = None, documentUrl = ''https://w3id.org/security/v2'',
                        document = JObj [(''@context'', JObj [])]\<rparr>, [])
     \<and> basic tbl ''https://example.org/ctx'' []
         = (Thrown (BasicError DOCUMENT_NOT_FOUND_ERROR ''loader#defaultLoader''
              ''No custom loader was provided and the document associated with the given URL was not found: https://example.org/ctx!''),
            []))"
  using
    basic_is_extend_fallback
      [of "[''https://w3id.org/security/v2'' \<mapsto> JObj [(''@context'', JObj [])]]"
          "''https://w3id.org/security/v2''" "JObj [(''@context'', JObj [])]" "[]",
       THEN conjunct2]
    basic_is_extend_fallback
      [of "[''https://w3id.org/security/v2'' \<mapsto> JObj [(''@context'', JObj [])]]"
          "''https://example.org/ctx''" "JNull" "[]", THEN conjunct2]
  by (simp add: Let_def)

section \<open>The base cryptosuite and the controller check\<close>

text \<open>
  C7. For every document and options, the base \<open>createProof\<close> and the base
  \<open>verifyProof\<close> throw the \<open>DataIntegrityError\<close> with code \<open>NOT_IMPLEMENTED_ERROR\<close>;
  neither yields a proof or a verification result.
\<close>

theorem Cryptosuite_base_NotImplemented:
  "createProof inputDocument createOptions =
     Thrown (DataIntegrityError NOT_IMPLEMENTED_ERROR ''Cryptosuite.createProof''
       ''The createProof method must be implemented by a subclass.'')
   \<and> verifyProof securedDocument verifyOptions =
     Thrown (DataIntegrityError NOT_IMPLEMENTED_ERROR ''Cryptosuite.verifyProof''
       ''The verifyProof method must be implemented by a subclass.'')
   \<and> (\<forall>p. createProof inputDocument createOptions \<noteq> Fulfilled p)
   \<and> (\<forall>r. verifyProof securedDocument verifyOptions \<noteq> Fulfilled r)"
  by (simp add: createProof_def verifyProof_def)





end
